theory Spec2Isabelle
  imports Main
begin

section \<open>JavaScript values as the route handlers use them\<close>

text \<open>
  The handlers read loosely typed records. A field is modelled by an option of the type
  the \<open>PilotJob\<close> interface gives it: \<open>None\<close> is a missing (undefined or null) field.
  JavaScript truthiness decides every \<open>x || d\<close> and \<open>x ? a : b\<close> of the source: the
  empty string, the number 0 and \<open>false\<close> are falsy, as a missing field is.
  Timestamps (\<open>new Date().toISOString()\<close>) are milliseconds since the epoch.
\<close>

type_synonym timestamp = nat

definition truthy_str :: "string option \<Rightarrow> bool" where
  "truthy_str x = (case x of None \<Rightarrow> False | Some s \<Rightarrow> s \<noteq> [])"


definition truthy_bool :: "bool option \<Rightarrow> bool" where
  "truthy_bool x = (case x of None \<Rightarrow> False | Some b \<Rightarrow> b)"

text \<open>\<open>String(x || d)\<close> for a string field \<open>x\<close>.\<close>

definition or_str :: "string option \<Rightarrow> string \<Rightarrow> string" where
  "or_str x d = (case x of None \<Rightarrow> d | Some s \<Rightarrow> if s = [] then d else s)"

text \<open>\<open>x ? String(x) : null\<close> and \<open>x || null\<close> for a string field \<open>x\<close>.\<close>

definition str_or_null :: "string option \<Rightarrow> string option" where
  "str_or_null x = (case x of None \<Rightarrow> None | Some s \<Rightarrow> if s = [] then None else Some s)"

text \<open>\<open>x ? Number(x) : null\<close> for a numeric field \<open>x\<close>.\<close>

definition num_or_null :: "int option \<Rightarrow> int option" where
  "num_or_null x = (case x of None \<Rightarrow> None | Some n \<Rightarrow> if n = 0 then None else Some n)"

text \<open>\<open>s.slice(0, n)\<close>.\<close>

definition slice0 :: "nat \<Rightarrow> string \<Rightarrow> string" where
  "slice0 n s = take n s"







section \<open>The pilot_jobs table\<close>

text \<open>
  One row of \<open>pilot_jobs\<close> as \<open>supabase-schema.sql\<close> declares it. A nullable column is
  an option; the primary key \<open>id\<close> (a UUID) is a natural number.
\<close>

record pilot_job =
  row_id :: nat
  title :: "string option"
  company :: "string option"
  location :: "string option"
  region :: "string option"
  position_type :: "string option"
  aircraft_type :: "string option"
  type_rating_required :: "bool option"
  type_rating_provided :: "bool option"
  min_total_hours :: "int option"
  min_pic_hours :: "int option"
  min_type_hours :: "int option"
  license_required :: "string option"
  visa_sponsorship :: "bool option"
  is_entry_level :: "bool option"
  tags :: "string list"
  contract_type :: "string option"
  salary_info :: "string option"
  benefits :: "string option"
  description :: "string option"
  application_url :: "string option"
  source :: "string option"
  date_posted :: "string option"
  date_scraped :: "timestamp option"
  is_active :: "bool option"
  created_at :: timestamp
  updated_at :: timestamp

section \<open>The maximum-hours filter\<close>




text \<open>
  \<open>SAMPLE_JOBS[0]\<close> of the jobs route, the row the API serves when nothing else is
  stored: a cadet position asking for 250 hours.
\<close>

definition SAMPLE_JOB :: pilot_job where
  "SAMPLE_JOB =
     \<lparr> row_id = 1,
       title = Some ''A320 First Officer - Cadet Program'',
       company = Some ''Ryanair'',
       location = Some ''Dublin, Ireland'',
       region = Some ''europe'',
       position_type = Some ''cadet'',
       aircraft_type = Some ''Airbus A320'',
       type_rating_required = Some False,
       type_rating_provided = Some True,
       min_total_hours = Some 250,
       min_pic_hours = None,
       min_type_hours = None,
       license_required = Some ''EASA CPL/ME/IR'',
       visa_sponsorship = None,
       is_entry_level = None,
       tags = [],
       contract_type = Some ''permanent'',
       salary_info = Some ''Competitive'',
       benefits = Some ''Type rating provided, travel benefits'',
       description = Some ''Join Ryanair's cadet program.'',
       application_url = Some ''https://careers.ryanair.com/'',
       source = Some ''Direct'',
       date_posted = Some ''2 days ago'',
       date_scraped = Some 0,
       is_active = Some True,
       created_at = 0,
       updated_at = 0 \<rparr>"






section \<open>The job-ingestion endpoint: the rows it builds\<close>

text \<open>
  One element of the array posted to \<open>POST /api/jobs\<close> (\<open>Record<string, unknown>\<close>),
  with the fields the handler reads.
\<close>

record raw_job =
  raw_title :: "string option"
  raw_company :: "string option"
  raw_location :: "string option"
  raw_region :: "string option"
  raw_position_type :: "string option"
  raw_aircraft_type :: "string option"
  raw_type_rating_required :: "bool option"
  raw_type_rating_provided :: "bool option"
  raw_min_total_hours :: "int option"
  raw_min_pic_hours :: "int option"
  raw_min_type_hours :: "int option"
  raw_license_required :: "string option"
  raw_contract_type :: "string option"
  raw_salary_info :: "string option"
  raw_benefits :: "string option"
  raw_description :: "string option"
  raw_application_url :: "string option"
  raw_source :: "string option"
  raw_date_posted :: "string option"

text \<open>One element of \<open>jobsToUpsert\<close> in the \<open>POST\<close> handler.\<close>

record post_row =
  p_title :: string
  p_company :: string
  p_location :: string
  p_region :: string
  p_position_type :: string
  p_aircraft_type :: "string option"
  p_type_rating_required :: bool
  p_type_rating_provided :: bool
  p_min_total_hours :: "int option"
  p_min_pic_hours :: "int option"
  p_min_type_hours :: "int option"
  p_license_required :: string
  p_contract_type :: string
  p_salary_info :: "string option"
  p_benefits :: "string option"
  p_description :: "string option"
  p_application_url :: string
  p_source :: string
  p_date_posted :: "string option"
  p_date_scraped :: timestamp
  p_is_active :: bool

text \<open>
  The arrow function of \<open>jobs.map\<close> in the \<open>POST\<close> handler; \<open>now\<close> is the reading of
  \<open>new Date()\<close> taken for this element.
\<close>

definition post_row_of :: "timestamp \<Rightarrow> raw_job \<Rightarrow> post_row" where
  "post_row_of now job =
     \<lparr> p_title = slice0 500 (or_str (raw_title job) []),
       p_company = slice0 255 (or_str (raw_company job) []),
       p_location = slice0 255 (or_str (raw_location job) ''Not specified''),
       p_region = or_str (raw_region job) ''global'',
       p_position_type = or_str (raw_position_type job) ''other'',
       p_aircraft_type = str_or_null (raw_aircraft_type job),
       p_type_rating_required = truthy_bool (raw_type_rating_required job),
       p_type_rating_provided = truthy_bool (raw_type_rating_provided job),
       p_min_total_hours = num_or_null (raw_min_total_hours job),
       p_min_pic_hours = num_or_null (raw_min_pic_hours job),
       p_min_type_hours = num_or_null (raw_min_type_hours job),
       p_license_required = or_str (raw_license_required job) ''ATPL/CPL'',
       p_contract_type = or_str (raw_contract_type job) ''permanent'',
       p_salary_info = str_or_null (raw_salary_info job),
       p_benefits = str_or_null (raw_benefits job),
       p_description = str_or_null (raw_description job),
       p_application_url = or_str (raw_application_url job) [],
       p_source = or_str (raw_source job) ''Scraped'',
       p_date_posted = str_or_null (raw_date_posted job),
       p_date_scraped = now,
       p_is_active = True \<rparr>"

text \<open>
  The \<open>n\<close>-th call of \<open>new Date()\<close> in one run of a handler reads \<open>clock n\<close>; the
  \<open>POST\<close> handler calls it once per element, in order.
\<close>

fun post_rows_from :: "(nat \<Rightarrow> timestamp) \<Rightarrow> nat \<Rightarrow> raw_job list \<Rightarrow> post_row list" where
  "post_rows_from clock n [] = []"
| "post_rows_from clock n (job # jobs) =
     post_row_of (clock n) job # post_rows_from clock (Suc n) jobs"

definition post_jobsToUpsert :: "(nat \<Rightarrow> timestamp) \<Rightarrow> raw_job list \<Rightarrow> post_row list" where
  "post_jobsToUpsert clock jobs = post_rows_from clock 0 jobs"

text \<open>
  The \<open>VARCHAR\<close> limits of \<open>pilot_jobs\<close> in \<open>supabase-schema.sql\<close>, on the columns a
  \<open>POST\<close> row carries.
\<close>

definition varchar_fits :: "nat \<Rightarrow> string option \<Rightarrow> bool" where
  "varchar_fits n x = (case x of None \<Rightarrow> True | Some s \<Rightarrow> length s \<le> n)"

definition post_row_fits_schema :: "post_row \<Rightarrow> bool" where
  "post_row_fits_schema p =
     (length (p_title p) \<le> 500 \<and> length (p_company p) \<le> 255
      \<and> length (p_location p) \<le> 255 \<and> length (p_region p) \<le> 50
      \<and> length (p_position_type p) \<le> 50 \<and> varchar_fits 255 (p_aircraft_type p)
      \<and> length (p_license_required p) \<le> 255 \<and> length (p_contract_type p) \<le> 50
      \<and> length (p_source p) \<le> 255 \<and> varchar_fits 100 (p_date_posted p))"

text \<open>A raw record with every field missing.\<close>

definition empty_raw_job :: raw_job where
  "empty_raw_job =
     \<lparr> raw_title = None, raw_company = None, raw_location = None, raw_region = None,
       raw_position_type = None, raw_aircraft_type = None,
       raw_type_rating_required = None, raw_type_rating_provided = None,
       raw_min_total_hours = None, raw_min_pic_hours = None, raw_min_type_hours = None,
       raw_license_required = None, raw_contract_type = None, raw_salary_info = None,
       raw_benefits = None, raw_description = None, raw_application_url = None,
       raw_source = None, raw_date_posted = None \<rparr>"

text \<open>
  A posted record that is well-formed but names an aircraft type of 256 characters.
\<close>

definition long_aircraft_job :: raw_job where
  "long_aircraft_job =
     empty_raw_job
       \<lparr> raw_title := Some ''First Officer'', raw_company := Some ''Ryanair'',
         raw_aircraft_type := Some (replicate 256 CHR ''A''),
         raw_application_url := Some ''https://careers.ryanair.com/'' \<rparr>"

lemma post_rows_from_length: "length (post_rows_from clock n jobs) = length jobs"
  by (induction jobs arbitrary: n) auto

lemma post_rows_from_nth:
  "i < length jobs \<Longrightarrow>
   post_rows_from clock n jobs ! i = post_row_of (clock (n + i)) (jobs ! i)"
proof (induction jobs arbitrary: n i)
  case Nil
  then show ?case by simp
next
  case (Cons job jobs)
  show ?case
  proof (cases i)
    case 0
    then show ?thesis by simp
  next
    case (Suc k)
    with Cons.prems have "k < length jobs" by simp
    from Cons.IH [OF this, of "Suc n"] Suc show ?thesis by simp
  qed
qed

lemma post_title_company_location_capped:
  "length (p_title (post_row_of now job)) \<le> 500
   \<and> length (p_company (post_row_of now job)) \<le> 255
   \<and> length (p_location (post_row_of now job)) \<le> 255"
  by (simp add: post_row_of_def slice0_def)

text \<open>
  C8: the code caps \<open>title\<close>, \<open>company\<close> and \<open>location\<close> only. At a record whose
  \<open>aircraft_type\<close> has 256 characters the row handed to the store carries all 256,
  beyond the column's \<open>VARCHAR(255)\<close>, so the row does not fit the schema.
\<close>

theorem post_aircraft_type_not_capped:
  "p_aircraft_type (post_row_of now long_aircraft_job) = Some (replicate 256 CHR ''A'')
   \<and> \<not> post_row_fits_schema (post_row_of now long_aircraft_job)"
  by (simp add: post_row_of_def long_aircraft_job_def empty_raw_job_def str_or_null_def
      post_row_fits_schema_def varchar_fits_def)

text \<open>
  C9, as stated, fails: with every optional field missing the row carries the
  placeholder strings \<open>Not specified\<close>, \<open>ATPL/CPL\<close> and \<open>permanent\<close> for location,
  license_required and contract_type.
\<close>

theorem post_missing_text_gets_placeholder:
  "raw_location empty_raw_job = None \<and> raw_license_required empty_raw_job = None
   \<and> raw_contract_type empty_raw_job = None
   \<and> p_location (post_row_of 0 empty_raw_job) = ''Not specified''
   \<and> p_license_required (post_row_of 0 empty_raw_job) = ''ATPL/CPL''
   \<and> p_contract_type (post_row_of 0 empty_raw_job) = ''permanent''"
  by (simp add: post_row_of_def empty_raw_job_def or_str_def slice0_def)

text \<open>
  C9, amended: a missing \<open>min_total_hours\<close>, \<open>min_pic_hours\<close>, \<open>min_type_hours\<close>,
  \<open>aircraft_type\<close>, \<open>salary_info\<close>, \<open>benefits\<close>, \<open>description\<close> or \<open>date_posted\<close>
  becomes null in the upserted row; a missing \<open>location\<close>, \<open>license_required\<close> or
  \<open>contract_type\<close> becomes the schema's default string (\<open>Not specified\<close>, \<open>ATPL/CPL\<close>,
  \<open>permanent\<close>).
\<close>

theorem post_missing_optional_fields:
  "p_min_total_hours (post_row_of now (job\<lparr>raw_min_total_hours := None\<rparr>)) = None
   \<and> p_min_pic_hours (post_row_of now (job\<lparr>raw_min_pic_hours := None\<rparr>)) = None
   \<and> p_min_type_hours (post_row_of now (job\<lparr>raw_min_type_hours := None\<rparr>)) = None
   \<and> p_aircraft_type (post_row_of now (job\<lparr>raw_aircraft_type := None\<rparr>)) = None
   \<and> p_salary_info (post_row_of now (job\<lparr>raw_salary_info := None\<rparr>)) = None
   \<and> p_benefits (post_row_of now (job\<lparr>raw_benefits := None\<rparr>)) = None
   \<and> p_description (post_row_of now (job\<lparr>raw_description := None\<rparr>)) = None
   \<and> p_date_posted (post_row_of now (job\<lparr>raw_date_posted := None\<rparr>)) = None
   \<and> p_location (post_row_of now (job\<lparr>raw_location := None\<rparr>)) = ''Not specified''
   \<and> p_license_required (post_row_of now (job\<lparr>raw_license_required := None\<rparr>)) = ''ATPL/CPL''
   \<and> p_contract_type (post_row_of now (job\<lparr>raw_contract_type := None\<rparr>)) = ''permanent''"
  by (simp add: post_row_of_def or_str_def str_or_null_def num_or_null_def slice0_def)

section \<open>Responses, exceptions and the store\<close>

text \<open>
  The JSON value handed to \<open>NextResponse.json\<close>, and the response with its status.
  \<open>JTime\<close> stands for the ISO string of a timestamp.
\<close>

datatype json =
  JNull | JBool bool | JNum int | JStr string | JTime timestamp
  | JArr "json list" | JObj "(string \<times> json) list"

record http_response =
  http_status :: nat
  http_body :: json

definition json_response :: "(string \<times> json) list \<Rightarrow> nat \<Rightarrow> http_response" where
  "json_response kvs st = \<lparr> http_status = st, http_body = JObj kvs \<rparr>"


text \<open>
  A thrown value: an \<open>Error\<close> with its message, or any other value
  (\<open>error instanceof Error ? error.message : 'Unknown error'\<close>).
\<close>

datatype js_exn = JsError string | JsOther

definition exn_message :: "js_exn \<Rightarrow> string" where
  "exn_message e = (case e of JsError m \<Rightarrow> m | JsOther \<Rightarrow> ''Unknown error'')"

text \<open>Decimal digits of a number, as a template string prints it.\<close>

fun show_nat :: "nat \<Rightarrow> string" where
  "show_nat n =
     (if n < 10 then [''0123456789'' ! n]
      else show_nat (n div 10) @ [''0123456789'' ! (n mod 10)])"

text \<open>
  What a call of the Supabase client comes back with: it throws, it returns
  \<open>{ error }\<close> with a message, or it returns no error.
\<close>

datatype store_reply = StoreThrows js_exn | StoreError string | StoreOk

text \<open>A row of \<open>scrape_logs\<close> as \<open>supabase-schema.sql\<close> declares it.\<close>

record scrape_log =
  log_id :: nat
  airline_name :: string
  ats_type_detected :: "string option"
  scraper_used :: "string option"
  log_status :: "string option"
  jobs_found :: nat
  jobs_new :: nat
  jobs_updated :: nat
  error_message :: "string option"
  started_at :: timestamp
  completed_at :: "timestamp option"

text \<open>
  Everything the handlers can write: the two tables and the scraper's output file
  \<open>scraper/output/latest_jobs.json\<close>.
\<close>

record system =
  pilot_jobs :: "pilot_job list"
  scrape_logs :: "scrape_log list"
  latest_jobs_file :: "raw_job list option"

text \<open>
  The row \<open>INSERT\<close> starts from: every column at the \<open>DEFAULT\<close> of
  \<open>supabase-schema.sql\<close>, a column with no default at \<open>NULL\<close>.
\<close>

definition default_row :: "nat \<Rightarrow> timestamp \<Rightarrow> pilot_job" where
  "default_row i dbnow =
     \<lparr> row_id = i,
       title = None,
       company = None,
       location = Some ''Not specified'',
       region = Some ''global'',
       position_type = Some ''other'',
       aircraft_type = None,
       type_rating_required = Some False,
       type_rating_provided = Some False,
       min_total_hours = None,
       min_pic_hours = None,
       min_type_hours = None,
       license_required = Some ''ATPL/CPL'',
       visa_sponsorship = Some False,
       is_entry_level = Some False,
       tags = [],
       contract_type = Some ''permanent'',
       salary_info = None,
       benefits = None,
       description = None,
       application_url = None,
       source = Some ''Scraped'',
       date_posted = None,
       date_scraped = Some dbnow,
       is_active = Some True,
       created_at = dbnow,
       updated_at = dbnow \<rparr>"

text \<open>An id no row of the table has (\<open>uuid_generate_v4()\<close>).\<close>

definition fresh_id :: "pilot_job list \<Rightarrow> nat" where
  "fresh_id T = Suc (fold max (map row_id T) 0)"

text \<open>
  Modelled from the spec: the Persistence Gateway's unique-key upsert, which the
  handlers reach through the Supabase client's
  \<open>upsert(rows, { onConflict: 'application_url' })\<close>; the client library is not part
  of the repository's sources.
  The spec keys the upsert on the application URL, and the schema declares
  \<open>application_url TEXT NOT NULL UNIQUE\<close>. One entry of a batch is the key and the
  assignment of the columns its object carries. A row with the key is updated in those
  columns (and the trigger \<open>update_pilot_jobs_updated_at\<close> stamps \<open>updated_at\<close>);
  with no such row one is inserted, the other columns at their defaults.
\<close>

definition upsert_one ::
  "timestamp \<Rightarrow> string \<times> (pilot_job \<Rightarrow> pilot_job) \<Rightarrow> pilot_job list \<Rightarrow> pilot_job list" where
  "upsert_one dbnow entry T =
     (if Some (fst entry) \<in> set (map application_url T)
      then map (\<lambda>r. if application_url r = Some (fst entry)
                      then (snd entry r)\<lparr>updated_at := dbnow\<rparr> else r) T
      else T @ [snd entry (default_row (fresh_id T) dbnow)])"

definition upsert_rows ::
  "timestamp \<Rightarrow> (string \<times> (pilot_job \<Rightarrow> pilot_job)) list \<Rightarrow> pilot_job list \<Rightarrow> pilot_job list" where
  "upsert_rows dbnow batch T = fold (upsert_one dbnow) batch T"

text \<open>
  One \<open>upsert\<close> call. A fault of the store (it throws, or it rejects the batch) leaves
  the table as it was; so does a batch that names one key twice, which PostgreSQL
  rejects (\<open>ON CONFLICT DO UPDATE command cannot affect row a second time\<close>).
\<close>

definition store_upsert ::
  "store_reply \<Rightarrow> timestamp \<Rightarrow> (string \<times> (pilot_job \<Rightarrow> pilot_job)) list \<Rightarrow> pilot_job list
   \<Rightarrow> store_reply \<times> pilot_job list" where
  "store_upsert fault dbnow batch T =
     (case fault of
        StoreOk \<Rightarrow>
          if distinct (map fst batch) then (StoreOk, upsert_rows dbnow batch T)
          else (StoreError ''ON CONFLICT DO UPDATE command cannot affect row a second time'', T)
      | _ \<Rightarrow> (fault, T))"

text \<open>
  Modelled from the spec: the store's write to one row, keyed by its unique identifier,
  which the handlers reach through the client's \<open>update(patch).eq('id', id)\<close>: the
  row with the id gets the patch (and the trigger's \<open>updated_at\<close>), every other row
  stays.
\<close>

definition update_by_id ::
  "timestamp \<Rightarrow> nat \<Rightarrow> (pilot_job \<Rightarrow> pilot_job) \<Rightarrow> pilot_job list \<Rightarrow> pilot_job list" where
  "update_by_id dbnow i patch T =
     map (\<lambda>r. if row_id r = i then (patch r)\<lparr>updated_at := dbnow\<rparr> else r) T"

section \<open>The job-ingestion endpoint: the handler\<close>

text \<open>The columns a \<open>POST\<close> row assigns.\<close>

definition post_columns :: "post_row \<Rightarrow> pilot_job \<Rightarrow> pilot_job" where
  "post_columns p r =
     r\<lparr> title := Some (p_title p),
        company := Some (p_company p),
        location := Some (p_location p),
        region := Some (p_region p),
        position_type := Some (p_position_type p),
        aircraft_type := p_aircraft_type p,
        type_rating_required := Some (p_type_rating_required p),
        type_rating_provided := Some (p_type_rating_provided p),
        min_total_hours := p_min_total_hours p,
        min_pic_hours := p_min_pic_hours p,
        min_type_hours := p_min_type_hours p,
        license_required := Some (p_license_required p),
        contract_type := Some (p_contract_type p),
        salary_info := p_salary_info p,
        benefits := p_benefits p,
        description := p_description p,
        application_url := Some (p_application_url p),
        source := Some (p_source p),
        date_posted := p_date_posted p,
        date_scraped := Some (p_date_scraped p),
        is_active := Some (p_is_active p) \<rparr>"

definition post_entry :: "post_row \<Rightarrow> string \<times> (pilot_job \<Rightarrow> pilot_job)" where
  "post_entry p = (p_application_url p, post_columns p)"

text \<open>The body of the request: \<open>request.json()\<close> throws, or gives a value.\<close>

datatype post_body = MalformedBody | NotArray | JobArray "raw_job list"

text \<open>What one call of \<open>POST /api/jobs\<close> meets.\<close>

record post_env =
  pe_expectedKey :: "string option"
  pe_apiKey :: "string option"
  pe_body :: post_body
  pe_supabaseConfigured :: bool
  pe_adminClient :: bool
  pe_clock :: "nat \<Rightarrow> timestamp"
  pe_db_now :: timestamp
  pe_upsert_fault :: store_reply
  pe_write_fails :: bool

definition post_authorized :: "post_env \<Rightarrow> bool" where
  "post_authorized e = (truthy_str (pe_expectedKey e) \<and> pe_apiKey e = pe_expectedKey e)"

text \<open>The Supabase branch of the handler, from \<open>jobs.map\<close> to its responses.\<close>

definition post_save_supabase :: "post_env \<Rightarrow> raw_job list \<Rightarrow> system \<Rightarrow> http_response \<times> system" where
  "post_save_supabase e jobs s =
     (case store_upsert (pe_upsert_fault e) (pe_db_now e)
             (map post_entry (post_jobsToUpsert (pe_clock e) jobs)) (pilot_jobs s) of
        (StoreThrows x, T) \<Rightarrow> (json_response [(''error'', JStr ''Database error'')] 500, s)
      | (StoreError m, T) \<Rightarrow> (json_response [(''error'', JStr m)] 500, s)
      | (StoreOk, T) \<Rightarrow>
          (json_response
             [(''success'', JBool True), (''count'', JNum (int (length jobs))),
              (''message'', JStr (''Saved '' @ show_nat (length jobs) @ '' jobs to Supabase''))]
             200,
           s\<lparr>pilot_jobs := T\<rparr>))"

text \<open>The fallback: the array is written to the JSON file.\<close>

definition post_save_file :: "post_env \<Rightarrow> raw_job list \<Rightarrow> system \<Rightarrow> http_response \<times> system" where
  "post_save_file e jobs s =
     (if pe_write_fails e then (json_response [(''error'', JStr ''File write error'')] 500, s)
      else
        (json_response
           [(''success'', JBool True), (''count'', JNum (int (length jobs))),
            (''message'',
             JStr (''Saved '' @ show_nat (length jobs) @ '' jobs to JSON (Supabase not configured)''))]
           200,
         s\<lparr>latest_jobs_file := Some jobs\<rparr>))"

definition POST :: "post_env \<Rightarrow> system \<Rightarrow> (js_exn + http_response) \<times> system" where
  "POST e s =
     (if \<not> post_authorized e then (Inr (json_response [(''error'', JStr ''Unauthorized'')] 401), s)
      else
        (case pe_body e of
           MalformedBody \<Rightarrow> (Inl (JsError ''Unexpected token in JSON''), s)
         | NotArray \<Rightarrow> (Inr (json_response [(''error'', JStr ''Invalid data format'')] 400), s)
         | JobArray jobs \<Rightarrow>
             (if pe_supabaseConfigured e \<and> pe_adminClient e
              then (case post_save_supabase e jobs s of (r, s') \<Rightarrow> (Inr r, s'))
              else (case post_save_file e jobs s of (r, s') \<Rightarrow> (Inr r, s')))))"

section \<open>Properties of the store\<close>

lemma fold_max_ge: "(a::nat) \<le> fold max xs a"
  by (induction xs arbitrary: a) (auto intro: order_trans [OF max.cobounded2])

lemma fold_max_mem: "x \<in> set xs \<Longrightarrow> x \<le> fold max xs (a::nat)"
proof (induction xs arbitrary: a)
  case Nil
  then show ?case by simp
next
  case (Cons y ys)
  show ?case
  proof (cases "x = y")
    case True
    have "y \<le> max y a" by simp
    also have "\<dots> \<le> fold max ys (max y a)" by (rule fold_max_ge)
    finally show ?thesis using True by simp
  next
    case False
    with Cons.prems have "x \<in> set ys" by simp
    then show ?thesis using Cons.IH by simp
  qed
qed

lemma fresh_id_gt: "r \<in> set T \<Longrightarrow> row_id r < fresh_id T"
  using fold_max_mem [of "row_id r" "map row_id T" 0] by (simp add: fresh_id_def less_Suc_eq_le)

text \<open>
  An entry of a batch assigns its own key to \<open>application_url\<close> and leaves \<open>id\<close>
  alone; assigning its columns twice, or before the trigger's stamp, changes nothing.
  Both hold of every object the handlers build.
\<close>

definition keyed_entry :: "string \<times> (pilot_job \<Rightarrow> pilot_job) \<Rightarrow> bool" where
  "keyed_entry entry =
     (\<forall>r. application_url (snd entry r) = Some (fst entry) \<and> row_id (snd entry r) = row_id r)"

definition stable_entry :: "string \<times> (pilot_job \<Rightarrow> pilot_job) \<Rightarrow> bool" where
  "stable_entry entry =
     (\<forall>r t. snd entry (snd entry r) = snd entry r
        \<and> snd entry (r\<lparr>updated_at := t\<rparr>) = (snd entry r)\<lparr>updated_at := t\<rparr>)"

lemma post_entry_keyed: "keyed_entry (post_entry p)"
  by (simp add: keyed_entry_def post_entry_def post_columns_def)

lemma post_entry_stable: "stable_entry (post_entry p)"
  by (simp add: stable_entry_def post_entry_def post_columns_def)

lemma upsert_one_urls:
  assumes "keyed_entry entry"
  shows "map application_url (upsert_one now entry T) =
     (if Some (fst entry) \<in> set (map application_url T) then map application_url T
      else map application_url T @ [Some (fst entry)])"
  using assms by (auto simp: upsert_one_def keyed_entry_def)

lemma upsert_one_ids:
  assumes "keyed_entry entry"
  shows "map row_id (upsert_one now entry T) =
     (if Some (fst entry) \<in> set (map application_url T) then map row_id T
      else map row_id T @ [fresh_id T])"
  using assms by (auto simp: upsert_one_def keyed_entry_def default_row_def)


lemma upsert_one_length:
  "length (upsert_one now entry T) =
     (if Some (fst entry) \<in> set (map application_url T) then length T else Suc (length T))"
  by (simp add: upsert_one_def)


lemma upsert_one_ids_distinct:
  assumes "keyed_entry entry" and "distinct (map row_id T)"
  shows "distinct (map row_id (upsert_one now entry T))"
proof -
  have "\<forall>r \<in> set T. row_id r \<noteq> fresh_id T"
    using fresh_id_gt [of _ T] by (metis less_irrefl)
  then have "fresh_id T \<notin> set (map row_id T)"
    by (metis (no_types, lifting) imageE list.set_map)
  with assms show ?thesis by (simp add: upsert_one_ids)
qed

lemma upsert_rows_urls:
  assumes "\<forall>e \<in> set batch. keyed_entry e"
  shows "set (map application_url (upsert_rows now batch T)) =
     set (map application_url T) \<union> Some ` fst ` set batch"
  using assms
proof (induction batch arbitrary: T)
  case Nil
  then show ?case by (simp add: upsert_rows_def)
next
  case (Cons e batch)
  have step: "set (map application_url (upsert_one now e T)) =
      insert (Some (fst e)) (set (map application_url T))"
    using Cons.prems by (auto simp: upsert_one_urls)
  have "upsert_rows now (e # batch) T = upsert_rows now batch (upsert_one now e T)"
    by (simp add: upsert_rows_def)
  with Cons.IH [of "upsert_one now e T"] Cons.prems step show ?case by auto
qed


lemma upsert_rows_ids_distinct:
  assumes "\<forall>e \<in> set batch. keyed_entry e" and "distinct (map row_id T)"
  shows "distinct (map row_id (upsert_rows now batch T))"
  using assms
proof (induction batch arbitrary: T)
  case Nil
  then show ?case by (simp add: upsert_rows_def)
next
  case (Cons e batch)
  have "upsert_rows now (e # batch) T = upsert_rows now batch (upsert_one now e T)"
    by (simp add: upsert_rows_def)
  moreover have "distinct (map row_id (upsert_one now e T))"
    using Cons.prems by (simp add: upsert_one_ids_distinct)
  ultimately show ?case using Cons.IH Cons.prems by simp
qed



lemma filter_map_fixed:
  assumes "\<And>x. x \<in> set xs \<Longrightarrow> P (f x) = P x"
    and "\<And>x. x \<in> set xs \<Longrightarrow> P x \<Longrightarrow> f x = x"
  shows "filter P (map f xs) = filter P xs"
  using assms by (induction xs) auto

lemma upsert_one_other_key:
  assumes "keyed_entry e" and "fst e \<noteq> key"
  shows "filter (\<lambda>r. application_url r = Some key) (upsert_one now e T) =
     filter (\<lambda>r. application_url r = Some key) T"
proof (cases "Some (fst e) \<in> set (map application_url T)")
  case True
  have "filter (\<lambda>r. application_url r = Some key)
          (map (\<lambda>r. if application_url r = Some (fst e)
                     then (snd e r)\<lparr>updated_at := now\<rparr> else r) T) =
        filter (\<lambda>r. application_url r = Some key) T"
    using assms by (intro filter_map_fixed) (auto simp: keyed_entry_def)
  with True show ?thesis by (simp add: upsert_one_def)
next
  case False
  with assms show ?thesis by (simp add: upsert_one_def keyed_entry_def)
qed

lemma upsert_rows_other_keys:
  assumes "\<forall>e \<in> set batch. keyed_entry e \<and> fst e \<noteq> key"
  shows "filter (\<lambda>r. application_url r = Some key) (upsert_rows now batch T) =
     filter (\<lambda>r. application_url r = Some key) T"
  using assms
proof (induction batch arbitrary: T)
  case Nil
  then show ?case by (simp add: upsert_rows_def)
next
  case (Cons e batch)
  have unfold: "upsert_rows now (e # batch) T = upsert_rows now batch (upsert_one now e T)"
    by (simp add: upsert_rows_def)
  from Cons.prems have "keyed_entry e" "fst e \<noteq> key" by auto
  then have "filter (\<lambda>r. application_url r = Some key) (upsert_one now e T) =
      filter (\<lambda>r. application_url r = Some key) T"
    by (rule upsert_one_other_key)
  moreover from Cons.IH [of "upsert_one now e T"] Cons.prems
  have "filter (\<lambda>r. application_url r = Some key) (upsert_rows now batch (upsert_one now e T)) =
      filter (\<lambda>r. application_url r = Some key) (upsert_one now e T)"
    by simp
  ultimately show ?case using unfold by simp
qed

lemma upsert_one_settles:
  assumes "keyed_entry e" and "stable_entry e"
    and "r \<in> set (upsert_one now e T)" and "application_url r = Some (fst e)"
  shows "snd e r = r"
proof (cases "Some (fst e) \<in> set (map application_url T)")
  case True
  with assms(3) obtain r0 where r0: "r0 \<in> set T"
    and r: "r = (if application_url r0 = Some (fst e) then (snd e r0)\<lparr>updated_at := now\<rparr> else r0)"
    by (auto simp: upsert_one_def)
  show ?thesis
  proof (cases "application_url r0 = Some (fst e)")
    case True
    with r have "r = (snd e r0)\<lparr>updated_at := now\<rparr>" by simp
    with assms(2) show ?thesis by (simp add: stable_entry_def)
  next
    case False
    with r assms(4) show ?thesis by simp
  qed
next
  case False
  with assms(3) have "r \<in> set T \<or> r = snd e (default_row (fresh_id T) now)"
    by (auto simp: upsert_one_def)
  then show ?thesis
  proof
    assume "r \<in> set T"
    with False assms(4) show ?thesis by force
  next
    assume "r = snd e (default_row (fresh_id T) now)"
    with assms(2) show ?thesis by (simp add: stable_entry_def)
  qed
qed

lemma upsert_rows_settles:
  assumes "\<forall>e \<in> set batch. keyed_entry e" and "distinct (map fst batch)"
    and "e \<in> set batch" and "stable_entry e"
    and "r \<in> set (upsert_rows now batch T)" and "application_url r = Some (fst e)"
  shows "snd e r = r"
  using assms
proof (induction batch arbitrary: T)
  case Nil
  then show ?case by simp
next
  case (Cons a batch)
  have unfold: "upsert_rows now (a # batch) T = upsert_rows now batch (upsert_one now a T)"
    by (simp add: upsert_rows_def)
  show ?case
  proof (cases "e = a")
    case True
    from Cons.prems(2) True have "fst e \<notin> fst ` set batch" by simp
    then have "\<forall>x \<in> set batch. fst x \<noteq> fst e" by (metis imageI)
    with Cons.prems(1)
    have others: "\<forall>x \<in> set batch. keyed_entry x \<and> fst x \<noteq> fst e" by simp
    have "filter (\<lambda>r. application_url r = Some (fst e)) (upsert_rows now batch (upsert_one now a T)) =
        filter (\<lambda>r. application_url r = Some (fst e)) (upsert_one now a T)"
      using others by (rule upsert_rows_other_keys)
    moreover have "r \<in> set (filter (\<lambda>r. application_url r = Some (fst e))
        (upsert_rows now batch (upsert_one now a T)))"
      using Cons.prems(5,6) unfold by simp
    ultimately have "r \<in> set (upsert_one now a T)" by simp
    with Cons.prems True show ?thesis by (intro upsert_one_settles [of e r now T]) auto
  next
    case False
    with Cons.prems(3) have "e \<in> set batch" by simp
    with Cons.prems unfold show ?thesis by (intro Cons.IH [of "upsert_one now a T"]) auto
  qed
qed



section \<open>Upserting the same record twice\<close>

text \<open>The conflict key of a posted record: \<open>String(job.application_url || '')\<close>.\<close>

definition post_key :: "raw_job \<Rightarrow> string" where
  "post_key job = or_str (raw_application_url job) []"

text \<open>
  A call of \<open>POST /api/jobs\<close> that reaches the store and is accepted by it: the key
  matches, the body is an array, Supabase is configured, and the store reports no
  error (so no key occurs twice in the batch).
\<close>

definition post_accepted :: "post_env \<Rightarrow> raw_job list \<Rightarrow> bool" where
  "post_accepted e jobs =
     (post_authorized e \<and> pe_body e = JobArray jobs \<and> pe_supabaseConfigured e
      \<and> pe_adminClient e \<and> pe_upsert_fault e = StoreOk \<and> distinct (map post_key jobs))"

lemma post_rows_keys: "map p_application_url (post_rows_from clock n jobs) = map post_key jobs"
  by (induction jobs arbitrary: n) (auto simp: post_row_of_def post_key_def)

lemma post_batch_keys:
  "map fst (map post_entry (post_jobsToUpsert clock jobs)) = map post_key jobs"
  by (simp add: post_jobsToUpsert_def post_entry_def comp_def post_rows_keys)

lemma post_batch_keyed: "\<forall>e \<in> set (map post_entry (post_jobsToUpsert clock jobs)). keyed_entry e"
  by (simp add: post_entry_keyed)

lemma POST_accepted:
  assumes "post_accepted e jobs"
  shows "POST e s =
     (Inr (json_response
             [(''success'', JBool True), (''count'', JNum (int (length jobs))),
              (''message'', JStr (''Saved '' @ show_nat (length jobs) @ '' jobs to Supabase''))]
             200),
      s\<lparr>pilot_jobs := upsert_rows (pe_db_now e)
           (map post_entry (post_jobsToUpsert (pe_clock e) jobs)) (pilot_jobs s)\<rparr>)"
proof -
  from assms have d: "distinct (map fst (map post_entry (post_jobsToUpsert (pe_clock e) jobs)))"
    by (simp only: post_batch_keys post_accepted_def)
  from assms d show ?thesis
    by (simp add: POST_def post_accepted_def post_save_supabase_def store_upsert_def
        del: show_nat.simps)
qed



definition empty_system :: system where
  "empty_system = \<lparr> pilot_jobs = [], scrape_logs = [], latest_jobs_file = None \<rparr>"



section \<open>The cron scrape endpoint\<close>

declare show_nat.simps [simp del]

text \<open>
  What \<open>fetch\<close> comes back with: it rejects (network error, time-out), or it resolves
  with a response of some status. \<open>response.ok\<close> is a status from 200 to 299.
\<close>

datatype fetch_outcome = Rejects string | Responds nat

definition response_ok :: "nat \<Rightarrow> bool" where
  "response_ok st = (200 \<le> st \<and> st \<le> 299)"

text \<open>\<open>url.split('#')[0]\<close>.\<close>

definition without_hash :: "string \<Rightarrow> string" where
  "without_hash url = takeWhile (\<lambda>c. c \<noteq> CHR ''#'') url"

text \<open>What \<open>createAdminClient()\<close> comes back with.\<close>

datatype client_outcome = ClientThrows js_exn | NoClient | HaveClient

text \<open>What one call of the cron endpoint meets.\<close>

record cron_env =
  ce_isDev :: bool
  ce_cronSecret :: "string option"
  ce_authHeader :: "string option"
  ce_head :: "string \<Rightarrow> fetch_outcome"
  ce_get :: "string \<Rightarrow> fetch_outcome"
  ce_clock :: "nat \<Rightarrow> timestamp"
  ce_adminClient :: client_outcome
  ce_upsert_fault :: store_reply
  ce_db_now :: timestamp

text \<open>
  \<open>validateUrl\<close> of the cron route: a \<open>HEAD\<close> request; when it rejects, a \<open>GET\<close>
  request; when that rejects too, \<open>false\<close>.
\<close>

definition validateUrl :: "cron_env \<Rightarrow> string \<Rightarrow> bool" where
  "validateUrl e url =
     (case ce_head e (without_hash url) of
        Responds st \<Rightarrow> response_ok st \<or> st = 301 \<or> st = 302
      | Rejects m \<Rightarrow>
          (case ce_get e (without_hash url) of
             Responds st \<Rightarrow> response_ok st
           | Rejects m' \<Rightarrow> False))"

text \<open>An element of \<open>STATIC_JOBS\<close>; a field the literal leaves out is \<open>None\<close>.\<close>

record static_job =
  sj_title :: string
  sj_company :: string
  sj_location :: string
  sj_region :: string
  sj_position_type :: string
  sj_aircraft_type :: "string option"
  sj_application_url :: string
  sj_source :: string
  sj_type_rating_required :: "bool option"
  sj_type_rating_provided :: "bool option"
  sj_contract_type :: "string option"
  sj_salary_info :: "string option"

text \<open>
  Every literal of \<open>STATIC_JOBS\<close> has \<open>position_type: 'first_officer'\<close>, an aircraft
  type, \<open>contract_type: 'permanent'\<close>, a \<open>type_rating_provided\<close> flag and no
  \<open>type_rating_required\<close>; the literals differ in the fields below.
\<close>

definition direct_job ::
  "string \<Rightarrow> string \<Rightarrow> string \<Rightarrow> string \<Rightarrow> string \<Rightarrow> string \<Rightarrow> string \<Rightarrow> bool
   \<Rightarrow> string option \<Rightarrow> static_job" where
  "direct_job t c l r a u s trp sal =
     \<lparr> sj_title = t, sj_company = c, sj_location = l, sj_region = r,
       sj_position_type = ''first_officer'', sj_aircraft_type = Some a,
       sj_application_url = u, sj_source = s, sj_type_rating_required = None,
       sj_type_rating_provided = Some trp, sj_contract_type = Some ''permanent'',
       sj_salary_info = sal \<rparr>"

definition STATIC_JOBS :: "static_job list" where
  "STATIC_JOBS =
     [direct_job ''Emirates Pilots (Captain & First Officer)'' ''Emirates'' ''Dubai, UAE''
        ''middle_east'' ''A380/B777'' ''https://www.emiratesgroupcareers.com/pilots/''
        ''Direct - Emirates'' True (Some ''Tax-free competitive package''),
      direct_job ''Qatar Airways Pilots'' ''Qatar Airways'' ''Doha, Qatar''
        ''middle_east'' ''A350/A380/B787/B777''
        ''https://careers.qatarairways.com/global/en/c/pilots-jobs''
        ''Direct - Qatar Airways'' True (Some ''Tax-free competitive package''),
      direct_job ''Etihad Airways Pilots'' ''Etihad Airways'' ''Abu Dhabi, UAE''
        ''middle_east'' ''A350/B787/B777''
        ''https://careers.etihad.com/go/Pilot-Opportunities/4691401/''
        ''Direct - Etihad'' True (Some ''Tax-free competitive package''),
      direct_job ''Ryanair Pilots - B737'' ''Ryanair'' ''Europe (Multiple Bases)''
        ''europe'' ''Boeing 737-800/MAX'' ''https://careers.ryanair.com/search/?q=pilot''
        ''Direct - Ryanair'' True None,
      direct_job ''easyJet Pilots - A320'' ''easyJet'' ''UK/Europe (Multiple Bases)''
        ''europe'' ''Airbus A320'' ''https://careers.easyjet.com/vacancies/pilots/''
        ''Direct - easyJet'' True None,
      direct_job ''Wizz Air Pilots - A320/A321'' ''Wizz Air'' ''Europe (Multiple Bases)''
        ''europe'' ''Airbus A320/A321''
        ''https://wizzair.com/en-gb/information-and-services/about-us/careers/pilots''
        ''Direct - Wizz Air'' True None,
      direct_job ''flydubai Pilots - B737 MAX'' ''flydubai'' ''Dubai, UAE''
        ''middle_east'' ''Boeing 737 MAX''
        ''https://careers.flydubai.com/en/jobs/?department=Pilots''
        ''Direct - flydubai'' True None,
      direct_job ''Vueling Pilots - A320'' ''Vueling'' ''Barcelona, Spain''
        ''europe'' ''Airbus A320'' ''https://careers.vueling.com/go/Flight-Crew/8838601/''
        ''Direct - Vueling'' True None,
      direct_job ''Singapore Airlines Pilots'' ''Singapore Airlines'' ''Singapore''
        ''asia'' ''A350/A380/B787/B777'' ''https://www.singaporeair.com/en_UK/sg/careers/''
        ''Direct - Singapore Airlines'' True None,
      direct_job ''Cathay Pacific Pilots'' ''Cathay Pacific'' ''Hong Kong''
        ''asia'' ''A350/B777''
        ''https://careers.cathaypacific.com/jobs?department=Flight+Operations''
        ''Direct - Cathay Pacific'' True None,
      direct_job ''Air France Pilots'' ''Air France'' ''Paris, France''
        ''europe'' ''A320/A350/B777/B787''
        ''https://recrutement.airfrance.com/offre-emploi/liste-offres.aspx''
        ''Direct - Air France'' False None,
      direct_job ''Lufthansa Group Pilots'' ''Lufthansa'' ''Frankfurt/Munich, Germany''
        ''europe'' ''A320/A350/B747/B777'' ''https://www.be-lufthansa.com/en/pilot''
        ''Direct - Lufthansa'' True None]"

text \<open>
  \<open>JobData\<close>, as \<open>scrapeJobs\<close> builds it: the static job's fields, both rating flags
  made booleans (\<open>|| false\<close>), the time of the push, and \<open>is_active: true\<close>.
\<close>

record job_data =
  jd_title :: string
  jd_company :: string
  jd_location :: string
  jd_region :: string
  jd_position_type :: string
  jd_aircraft_type :: "string option"
  jd_application_url :: string
  jd_source :: string
  jd_type_rating_required :: bool
  jd_type_rating_provided :: bool
  jd_contract_type :: "string option"
  jd_salary_info :: "string option"
  jd_date_scraped :: timestamp
  jd_is_active :: bool

definition job_data_of :: "static_job \<Rightarrow> timestamp \<Rightarrow> job_data" where
  "job_data_of job now =
     \<lparr> jd_title = sj_title job, jd_company = sj_company job,
       jd_location = sj_location job, jd_region = sj_region job,
       jd_position_type = sj_position_type job, jd_aircraft_type = sj_aircraft_type job,
       jd_application_url = sj_application_url job, jd_source = sj_source job,
       jd_type_rating_required = truthy_bool (sj_type_rating_required job),
       jd_type_rating_provided = truthy_bool (sj_type_rating_provided job),
       jd_contract_type = sj_contract_type job, jd_salary_info = sj_salary_info job,
       jd_date_scraped = now, jd_is_active = True \<rparr>"

text \<open>
  The loop of \<open>scrapeJobs\<close> over the validation results: a job with a valid URL is
  pushed with the time read at that moment, any other job is skipped with a warning.
\<close>

fun push_valid ::
  "(nat \<Rightarrow> timestamp) \<Rightarrow> (static_job \<times> bool) list \<Rightarrow> job_data list \<Rightarrow> job_data list" where
  "push_valid clock [] jobs = jobs"
| "push_valid clock ((job, isValid) # rest) jobs =
     (if isValid then push_valid clock rest (jobs @ [job_data_of job (clock (length jobs))])
      else push_valid clock rest jobs)"

definition scrapeJobs :: "cron_env \<Rightarrow> job_data list" where
  "scrapeJobs e =
     push_valid (ce_clock e)
       (map (\<lambda>job. (job, validateUrl e (sj_application_url job))) STATIC_JOBS) []"

text \<open>One element of \<open>jobsToUpsert\<close> in the cron handler.\<close>

record cron_row =
  c_title :: string
  c_company :: string
  c_location :: string
  c_region :: string
  c_position_type :: string
  c_aircraft_type :: "string option"
  c_type_rating_required :: bool
  c_type_rating_provided :: bool
  c_contract_type :: string
  c_salary_info :: "string option"
  c_application_url :: string
  c_source :: string
  c_date_scraped :: timestamp
  c_is_active :: bool
  c_is_entry_level :: bool
  c_visa_sponsorship :: bool

definition middleEastAirlines :: "string list" where
  "middleEastAirlines = [''Emirates'', ''Qatar Airways'', ''Etihad Airways'', ''flydubai'']"

text \<open>The arrow function of \<open>jobs.map\<close> in the cron handler.\<close>

definition cron_row_of :: "job_data \<Rightarrow> cron_row" where
  "cron_row_of job =
     (let isCadetOrTrainee = (jd_position_type job = ''cadet'');
          isTypeRatingProvidedNonCaptain =
            (jd_type_rating_provided job \<and> jd_position_type job \<noteq> ''captain'');
          isEntryLevel = (isCadetOrTrainee \<or> isTypeRatingProvidedNonCaptain);
          visaSponsorship =
            (jd_company job \<in> set middleEastAirlines \<or> jd_region job = ''middle_east'')
      in \<lparr> c_title = jd_title job,
           c_company = jd_company job,
           c_location = jd_location job,
           c_region = jd_region job,
           c_position_type = jd_position_type job,
           c_aircraft_type = str_or_null (jd_aircraft_type job),
           c_type_rating_required = jd_type_rating_required job,
           c_type_rating_provided = jd_type_rating_provided job,
           c_contract_type = or_str (jd_contract_type job) ''permanent'',
           c_salary_info = str_or_null (jd_salary_info job),
           c_application_url = jd_application_url job,
           c_source = jd_source job,
           c_date_scraped = jd_date_scraped job,
           c_is_active = True,
           c_is_entry_level = isEntryLevel,
           c_visa_sponsorship = visaSponsorship \<rparr>)"

definition cron_jobsToUpsert :: "cron_env \<Rightarrow> cron_row list" where
  "cron_jobsToUpsert e = map cron_row_of (scrapeJobs e)"

text \<open>The columns a cron row assigns.\<close>

definition cron_columns :: "cron_row \<Rightarrow> pilot_job \<Rightarrow> pilot_job" where
  "cron_columns c r =
     r\<lparr> title := Some (c_title c),
        company := Some (c_company c),
        location := Some (c_location c),
        region := Some (c_region c),
        position_type := Some (c_position_type c),
        aircraft_type := c_aircraft_type c,
        type_rating_required := Some (c_type_rating_required c),
        type_rating_provided := Some (c_type_rating_provided c),
        contract_type := Some (c_contract_type c),
        salary_info := c_salary_info c,
        application_url := Some (c_application_url c),
        source := Some (c_source c),
        date_scraped := Some (c_date_scraped c),
        is_active := Some (c_is_active c),
        is_entry_level := Some (c_is_entry_level c),
        visa_sponsorship := Some (c_visa_sponsorship c) \<rparr>"

definition cron_entry :: "cron_row \<Rightarrow> string \<times> (pilot_job \<Rightarrow> pilot_job)" where
  "cron_entry c = (c_application_url c, cron_columns c)"

definition cron_authorized :: "cron_env \<Rightarrow> bool" where
  "cron_authorized e =
     (ce_isDev e \<or>
      (case ce_cronSecret e of
         None \<Rightarrow> False
       | Some secret \<Rightarrow> secret \<noteq> [] \<and> ce_authHeader e = Some (''Bearer '' @ secret)))"

text \<open>
  The body of the handler's \<open>try\<close>: it returns a response, or an exception leaves it
  (\<open>createAdminClient\<close> or the \<open>upsert\<close> call threw).
\<close>

definition cron_try :: "cron_env \<Rightarrow> system \<Rightarrow> (js_exn + http_response) \<times> system" where
  "cron_try e s =
     (let jobs = scrapeJobs e in
      case ce_adminClient e of
        ClientThrows x \<Rightarrow> (Inl x, s)
      | NoClient \<Rightarrow>
          (Inr (json_response
                  [(''success'', JBool False), (''error'', JStr ''Supabase not configured''),
                   (''jobs_found'', JNum (int (length jobs)))] 500), s)
      | HaveClient \<Rightarrow>
          (case store_upsert (ce_upsert_fault e) (ce_db_now e)
                  (map cron_entry (map cron_row_of jobs)) (pilot_jobs s) of
             (StoreThrows x, T) \<Rightarrow> (Inl x, s)
           | (StoreError m, T) \<Rightarrow>
               (Inr (json_response
                       [(''success'', JBool False), (''error'', JStr m),
                        (''jobs_found'', JNum (int (length jobs)))] 500), s)
           | (StoreOk, T) \<Rightarrow>
               (Inr (json_response
                       [(''success'', JBool True),
                        (''message'', JStr (''Scraped and saved '' @ show_nat (length jobs) @ '' jobs'')),
                        (''jobs_found'', JNum (int (length jobs))),
                        (''timestamp'', JTime (ce_clock e (length jobs)))] 200),
                s\<lparr>pilot_jobs := T\<rparr>)))"

text \<open>
  The handler: the authorisation check, then the \<open>try\<close> with its \<open>catch\<close>. The result
  is \<open>Inl\<close> when an exception leaves the handler.
\<close>

definition GET_scrape :: "cron_env \<Rightarrow> system \<Rightarrow> (js_exn + http_response) \<times> system" where
  "GET_scrape e s =
     (if \<not> cron_authorized e then (Inr (json_response [(''error'', JStr ''Unauthorized'')] 401), s)
      else
        (case cron_try e s of
           (Inl x, s') \<Rightarrow>
             (Inr (json_response
                     [(''success'', JBool False), (''error'', JStr (exn_message x))] 500), s')
         | (Inr r, s') \<Rightarrow> (Inr r, s')))"

section \<open>The cron scrape endpoint: failures, isolation and the flags\<close>

text \<open>
  Up to the time stamps, the jobs \<open>scrapeJobs\<close> returns are the static jobs whose own
  URL check succeeded, in order: whether a job is kept, and what its row holds,
  depends on no other job's check.
\<close>

lemma push_valid_untimed:
  "map (\<lambda>jd. jd\<lparr>jd_date_scraped := 0\<rparr>) (push_valid clock vs acc) =
   map (\<lambda>jd. jd\<lparr>jd_date_scraped := 0\<rparr>) acc @ map (\<lambda>v. job_data_of (fst v) 0) (filter snd vs)"
  by (induction clock vs acc rule: push_valid.induct) (auto simp: job_data_of_def)

lemma filter_snd_tagged:
  "filter snd (map (\<lambda>x. (x, P x)) xs) = map (\<lambda>x. (x, P x)) (filter P xs)"
  by (induction xs) auto

lemma scrapeJobs_untimed:
  "map (\<lambda>jd. jd\<lparr>jd_date_scraped := 0\<rparr>) (scrapeJobs e) =
   map (\<lambda>job. job_data_of job 0)
     (filter (\<lambda>job. validateUrl e (sj_application_url job)) STATIC_JOBS)"
  by (simp add: scrapeJobs_def push_valid_untimed filter_snd_tagged comp_def)

lemma cron_row_of_untimed:
  "(cron_row_of jd)\<lparr>c_date_scraped := 0\<rparr> = cron_row_of (jd\<lparr>jd_date_scraped := 0\<rparr>)"
  by (simp add: cron_row_of_def Let_def)

lemma cron_jobsToUpsert_untimed:
  "map (\<lambda>c. c\<lparr>c_date_scraped := 0\<rparr>) (cron_jobsToUpsert e) =
   map (\<lambda>job. cron_row_of (job_data_of job 0))
     (filter (\<lambda>job. validateUrl e (sj_application_url job)) STATIC_JOBS)"
proof -
  have "map (\<lambda>c. c\<lparr>c_date_scraped := 0\<rparr>) (cron_jobsToUpsert e) =
      map cron_row_of (map (\<lambda>jd. jd\<lparr>jd_date_scraped := 0\<rparr>) (scrapeJobs e))"
    by (simp add: cron_jobsToUpsert_def cron_row_of_untimed comp_def)
  then show ?thesis by (simp add: scrapeJobs_untimed comp_def)
qed




text \<open>
  C5, amended: the cron scrape endpoint writes no \<open>scrape_logs\<close> row and changes none,
  whatever the outcome of the run; the run is reported by its JSON response only.
\<close>

theorem cron_leaves_scrape_logs:
  "scrape_logs (snd (GET_scrape e s)) = scrape_logs s"
  by (auto simp: GET_scrape_def cron_try_def Let_def store_upsert_def
      split: client_outcome.splits store_reply.splits prod.splits sum.splits)


text \<open>
  A run in development mode where every site answers \<open>HEAD\<close> with 200, except that
  both requests to the Emirates URL are rejected; the store works. And the same run
  with a store that rejects the batch.
\<close>

definition one_dead_env :: cron_env where
  "one_dead_env =
     \<lparr> ce_isDev = True, ce_cronSecret = None, ce_authHeader = None,
       ce_head = (\<lambda>u. if u = ''https://www.emiratesgroupcareers.com/pilots/''
                      then Rejects ''fetch failed'' else Responds 200),
       ce_get = (\<lambda>u. Rejects ''fetch failed''),
       ce_clock = (\<lambda>n. 5000 + n),
       ce_adminClient = HaveClient,
       ce_upsert_fault = StoreOk,
       ce_db_now = 5000 \<rparr>"

definition store_down_env :: cron_env where
  "store_down_env = one_dead_env\<lparr>ce_upsert_fault := StoreError ''connection refused''\<rparr>"








text \<open>
  C5, as stated, fails: neither the successful run nor the run whose persistence
  fails leaves a Scrape Run Record.
\<close>

theorem cron_writes_no_log:
  "scrape_logs (snd (GET_scrape one_dead_env empty_system)) = []
   \<and> scrape_logs (snd (GET_scrape store_down_env empty_system)) = []"
  by (auto simp: GET_scrape_def cron_try_def Let_def store_upsert_def empty_system_def
      split: client_outcome.splits store_reply.splits prod.splits sum.splits)

text \<open>
  C4: in every row the cron endpoint upserts, \<open>visa_sponsorship\<close> is true exactly when
  the company is Emirates, Qatar Airways, Etihad Airways or flydubai, or the region is
  \<open>middle_east\<close>; that value is what the upsert writes to the column.
\<close>

theorem cron_visa_sponsorship:
  "\<forall>c \<in> set (cron_jobsToUpsert e).
     c_visa_sponsorship c =
       (c_company c \<in> {''Emirates'', ''Qatar Airways'', ''Etihad Airways'', ''flydubai''}
        \<or> c_region c = ''middle_east'')
     \<and> visa_sponsorship (snd (cron_entry c) r) = Some (c_visa_sponsorship c)"
  by (auto simp: cron_jobsToUpsert_def cron_row_of_def Let_def middleEastAirlines_def
      cron_entry_def cron_columns_def)

definition all_live_env :: cron_env where
  "all_live_env = one_dead_env\<lparr>ce_head := (\<lambda>u. Responds 200)\<rparr>"

lemma all_live_jobs:
  "scrapeJobs all_live_env = map (\<lambda>(n, job). job_data_of job (5000 + n)) (enumerate 0 STATIC_JOBS)"
  by (simp add: scrapeJobs_def STATIC_JOBS_def validateUrl_def all_live_env_def one_dead_env_def
      response_ok_def)

theorem cron_visa_sponsorship_witness:
  "cron_row_of (job_data_of (STATIC_JOBS ! 0) 5000) \<in> set (cron_jobsToUpsert all_live_env)
   \<and> c_visa_sponsorship (cron_row_of (job_data_of (STATIC_JOBS ! 0) 5000))
   \<and> cron_row_of (job_data_of (STATIC_JOBS ! 3) 5003) \<in> set (cron_jobsToUpsert all_live_env)
   \<and> \<not> c_visa_sponsorship (cron_row_of (job_data_of (STATIC_JOBS ! 3) 5003))"
proof -
  have m0: "cron_row_of (job_data_of (STATIC_JOBS ! 0) 5000) \<in> set (cron_jobsToUpsert all_live_env)"
    by (simp add: cron_jobsToUpsert_def all_live_jobs STATIC_JOBS_def)
  have m3: "cron_row_of (job_data_of (STATIC_JOBS ! 3) 5003) \<in> set (cron_jobsToUpsert all_live_env)"
    by (simp add: cron_jobsToUpsert_def all_live_jobs STATIC_JOBS_def)
  have c0: "c_company (cron_row_of (job_data_of (STATIC_JOBS ! 0) 5000)) = ''Emirates''"
    by (simp add: cron_row_of_def job_data_of_def STATIC_JOBS_def direct_job_def Let_def)
  have c3: "c_company (cron_row_of (job_data_of (STATIC_JOBS ! 3) 5003)) = ''Ryanair''"
    "c_region (cron_row_of (job_data_of (STATIC_JOBS ! 3) 5003)) = ''europe''"
    by (simp_all add: cron_row_of_def job_data_of_def STATIC_JOBS_def direct_job_def Let_def)
  from cron_visa_sponsorship [of all_live_env] m0 m3
  have v0: "c_visa_sponsorship (cron_row_of (job_data_of (STATIC_JOBS ! 0) 5000)) =
       (c_company (cron_row_of (job_data_of (STATIC_JOBS ! 0) 5000))
          \<in> {''Emirates'', ''Qatar Airways'', ''Etihad Airways'', ''flydubai''}
        \<or> c_region (cron_row_of (job_data_of (STATIC_JOBS ! 0) 5000)) = ''middle_east'')"
    and v3: "c_visa_sponsorship (cron_row_of (job_data_of (STATIC_JOBS ! 3) 5003)) =
       (c_company (cron_row_of (job_data_of (STATIC_JOBS ! 3) 5003))
          \<in> {''Emirates'', ''Qatar Airways'', ''Etihad Airways'', ''flydubai''}
        \<or> c_region (cron_row_of (job_data_of (STATIC_JOBS ! 3) 5003)) = ''middle_east'')"
    by blast+
  from v0 c0 have "c_visa_sponsorship (cron_row_of (job_data_of (STATIC_JOBS ! 0) 5000))"
    by simp
  moreover from v3 c3 have "\<not> c_visa_sponsorship (cron_row_of (job_data_of (STATIC_JOBS ! 3) 5003))"
    by simp
  ultimately show ?thesis using m0 m3 by (intro conjI)
qed

section \<open>The URL validation endpoint\<close>

text \<open>
  The admin check the validation and the recalculation endpoints share:
  \<open>adminSecret = CRON_SECRET || ADMIN_SECRET\<close>, and the caller is authorised in
  development, or when the secret is set and the header is \<open>Bearer\<close> followed by it.
\<close>

definition admin_authorized ::
  "bool \<Rightarrow> string option \<Rightarrow> string option \<Rightarrow> string option \<Rightarrow> bool" where
  "admin_authorized isDev cronSecret adminSecretVar authHeader =
     (let adminSecret = (if truthy_str cronSecret then cronSecret else adminSecretVar)
      in isDev \<or>
         (case adminSecret of
            None \<Rightarrow> False
          | Some secret \<Rightarrow> secret \<noteq> [] \<and> authHeader = Some (''Bearer '' @ secret)))"

text \<open>The result of \<open>validateUrl\<close> in the validation route.\<close>

record url_check =
  valid :: bool
  chk_status :: "nat option"
  chk_error :: "string option"

text \<open>What one call of the validation endpoint meets.\<close>

record validate_env =
  ve_isDev :: bool
  ve_cronSecret :: "string option"
  ve_adminSecret :: "string option"
  ve_authHeader :: "string option"
  ve_adminClient :: client_outcome
  ve_select_fault :: store_reply
  ve_head :: "string \<Rightarrow> fetch_outcome"
  ve_get :: "string \<Rightarrow> fetch_outcome"
  ve_update_fault :: "nat \<Rightarrow> store_reply"
  ve_db_now :: timestamp

text \<open>
  \<open>validateUrl\<close> of the validation route. A \<open>HEAD\<close> answer of 404 is invalid, a
  2xx, 301 or 302 is valid, any other status is invalid; when \<open>HEAD\<close> rejects, a \<open>GET\<close>
  answer is valid exactly when it is 2xx; when both reject, the URL is invalid. A
  null URL makes \<open>url.split\<close> throw in both \<open>try\<close> blocks.
\<close>

definition check_url :: "validate_env \<Rightarrow> string option \<Rightarrow> url_check" where
  "check_url e url =
     (case url of
        None \<Rightarrow>
          \<lparr> valid = False, chk_status = None,
            chk_error = Some ''Cannot read properties of null'' \<rparr>
      | Some u \<Rightarrow>
          (case ve_head e (without_hash u) of
             Responds st \<Rightarrow>
               if st = 404
               then \<lparr> valid = False, chk_status = Some st,
                      chk_error = Some ''Page not found (404)'' \<rparr>
               else if response_ok st \<or> st = 301 \<or> st = 302
               then \<lparr> valid = True, chk_status = Some st, chk_error = None \<rparr>
               else \<lparr> valid = False, chk_status = Some st,
                      chk_error = Some (''HTTP '' @ show_nat st) \<rparr>
           | Rejects m \<Rightarrow>
               (case ve_get e (without_hash u) of
                  Responds st \<Rightarrow>
                    if st = 404
                    then \<lparr> valid = False, chk_status = Some st,
                           chk_error = Some ''Page not found (404)'' \<rparr>
                    else \<lparr> valid = response_ok st, chk_status = Some st, chk_error = None \<rparr>
                | Rejects m' \<Rightarrow>
                    \<lparr> valid = False, chk_status = None, chk_error = Some m' \<rparr>)))"

text \<open>The \<open>results\<close> object of the sweep.\<close>

record sweep_results =
  total :: nat
  valid_count :: nat
  invalid_count :: nat
  deactivated :: "(nat \<times> string option \<times> string option \<times> string) list"
  errors :: "string list"

text \<open>The patch \<open>{ is_active: false }\<close>.\<close>

definition deactivate :: "pilot_job \<Rightarrow> pilot_job" where
  "deactivate r = r\<lparr>is_active := Some False\<rparr>"

text \<open>
  The inner loop over the validations of one batch. The first component of the result
  is the exception that left the loop, if one did; the table is as the updates made so
  far left it.
\<close>

fun sweep_validations ::
  "validate_env \<Rightarrow> (pilot_job \<times> url_check) list \<Rightarrow> sweep_results \<times> pilot_job list
   \<Rightarrow> js_exn option \<times> sweep_results \<times> pilot_job list" where
  "sweep_validations e [] acc = (None, acc)"
| "sweep_validations e ((job, result) # rest) (res, T) =
     (if valid result
      then sweep_validations e rest (res\<lparr>valid_count := valid_count res + 1\<rparr>, T)
      else
        (case ve_update_fault e (row_id job) of
           StoreThrows x \<Rightarrow> (Some x, res\<lparr>invalid_count := invalid_count res + 1\<rparr>, T)
         | StoreError m \<Rightarrow>
             sweep_validations e rest
               (res\<lparr>invalid_count := invalid_count res + 1,
                    errors := errors res @
                      [''Failed to deactivate '' @ show_nat (row_id job) @ '': '' @ m]\<rparr>,
                T)
         | StoreOk \<Rightarrow>
             sweep_validations e rest
               (res\<lparr>invalid_count := invalid_count res + 1,
                    deactivated := deactivated res @
                      [(row_id job, title job, application_url job,
                        (case chk_error result of
                           None \<Rightarrow> ''Unknown error''
                         | Some m \<Rightarrow> if m = [] then ''Unknown error'' else m))]\<rparr>,
                update_by_id (ve_db_now e) (row_id job) deactivate T)))"

text \<open>The outer loop: batches of five, each validated and then handled in order.\<close>

function sweep_batches ::
  "validate_env \<Rightarrow> pilot_job list \<Rightarrow> sweep_results \<times> pilot_job list
   \<Rightarrow> js_exn option \<times> sweep_results \<times> pilot_job list" where
  "sweep_batches e jobs acc =
     (if jobs = [] then (None, acc)
      else
        (case sweep_validations e
                (map (\<lambda>job. (job, check_url e (application_url job))) (take 5 jobs)) acc of
           (Some x, acc') \<Rightarrow> (Some x, acc')
         | (None, acc') \<Rightarrow> sweep_batches e (drop 5 jobs) acc'))"
  by pat_completeness auto
termination
  by (relation "measure (\<lambda>(e, jobs, acc). length jobs)") auto

declare sweep_batches.simps [simp del]

definition results_json :: "sweep_results \<Rightarrow> json" where
  "results_json res =
     JObj [(''total'', JNum (int (total res))),
           (''valid'', JNum (int (valid_count res))),
           (''invalid'', JNum (int (invalid_count res))),
           (''deactivated'',
            JArr (map (\<lambda>(i, t, u, m).
                         JObj [(''id'', JNum (int i)),
                               (''title'', (case t of None \<Rightarrow> JNull | Some x \<Rightarrow> JStr x)),
                               (''url'', (case u of None \<Rightarrow> JNull | Some x \<Rightarrow> JStr x)),
                               (''error'', JStr m)])
                    (deactivated res))),
           (''errors'', JArr (map JStr (errors res)))]"

text \<open>
  The handler. It has no \<open>try\<close>: an exception of the client leaves it, the updates
  made before it staying in the table.
\<close>

definition GET_validate :: "validate_env \<Rightarrow> system \<Rightarrow> (js_exn + http_response) \<times> system" where
  "GET_validate e s =
     (if \<not> admin_authorized (ve_isDev e) (ve_cronSecret e) (ve_adminSecret e) (ve_authHeader e)
      then (Inr (json_response [(''error'', JStr ''Unauthorized'')] 401), s)
      else
        (case ve_adminClient e of
           ClientThrows x \<Rightarrow> (Inl x, s)
         | NoClient \<Rightarrow> (Inr (json_response [(''error'', JStr ''Supabase not configured'')] 500), s)
         | HaveClient \<Rightarrow>
             (case ve_select_fault e of
                StoreThrows x \<Rightarrow> (Inl x, s)
              | StoreError m \<Rightarrow> (Inr (json_response [(''error'', JStr m)] 500), s)
              | StoreOk \<Rightarrow>
                  (let jobs = filter (\<lambda>r. is_active r = Some True) (pilot_jobs s);
                       results = \<lparr> total = length jobs, valid_count = 0, invalid_count = 0,
                                   deactivated = [], errors = [] \<rparr>
                   in case sweep_batches e jobs (results, pilot_jobs s) of
                        (Some x, res, T) \<Rightarrow> (Inl x, s\<lparr>pilot_jobs := T\<rparr>)
                      | (None, res, T) \<Rightarrow>
                          (Inr (json_response
                                  [(''success'', JBool True),
                                   (''message'',
                                    JStr (''Validated '' @ show_nat (total res)
                                          @ '' jobs, deactivated '' @ show_nat (invalid_count res)
                                          @ '' with invalid URLs'')),
                                   (''results'', results_json res)] 200),
                           s\<lparr>pilot_jobs := T\<rparr>)))))"

section \<open>The entry-level recalculation endpoint\<close>







section \<open>Updates by id\<close>












section \<open>The validation sweep: which rows it deactivates\<close>








text \<open>
  A sweep in development mode where every \<open>HEAD\<close> answers 404; the store takes the
  updates, or it refuses them. The table holds the one sample row.
\<close>

definition dead_link_env :: validate_env where
  "dead_link_env =
     \<lparr> ve_isDev = True, ve_cronSecret = None, ve_adminSecret = None, ve_authHeader = None,
       ve_adminClient = HaveClient, ve_select_fault = StoreOk,
       ve_head = (\<lambda>u. Responds 404), ve_get = (\<lambda>u. Rejects ''fetch failed''),
       ve_update_fault = (\<lambda>i. StoreOk), ve_db_now = 7000 \<rparr>"





section \<open>The entry-level rule\<close>












section \<open>What the pipeline does to existing rows\<close>

lemma deactivate_related:
  assumes "list_all2 (\<lambda>r r'. r' = r \<or> r' = r\<lparr>is_active := Some False, updated_at := dbnow\<rparr>) T0 T"
  shows "list_all2 (\<lambda>r r'. r' = r \<or> r' = r\<lparr>is_active := Some False, updated_at := dbnow\<rparr>) T0
           (update_by_id dbnow i deactivate T)"
proof -
  have "list_all2 (\<lambda>r r'. (if row_id r' = i then (deactivate r')\<lparr>updated_at := dbnow\<rparr> else r') = r
          \<or> (if row_id r' = i then (deactivate r')\<lparr>updated_at := dbnow\<rparr> else r') =
             r\<lparr>is_active := Some False, updated_at := dbnow\<rparr>) T0 T"
    using assms by (rule list_all2_mono) (auto simp: deactivate_def)
  then show ?thesis by (simp add: update_by_id_def list_all2_map2)
qed

lemma sweep_validations_related:
  assumes "list_all2 (\<lambda>r r'. r' = r \<or> r' = r\<lparr>is_active := Some False, updated_at := ve_db_now e\<rparr>) T0 T"
  shows "list_all2 (\<lambda>r r'. r' = r \<or> r' = r\<lparr>is_active := Some False, updated_at := ve_db_now e\<rparr>) T0
           (snd (snd (sweep_validations e vs (res, T))))"
  using assms
proof (induction vs arbitrary: res T)
  case Nil
  then show ?case by simp
next
  case (Cons v vs)
  obtain job result where v: "v = (job, result)" by (cases v)
  show ?case
  proof (cases "valid result")
    case True
    with v Cons show ?thesis by simp
  next
    case False
    show ?thesis
    proof (cases "ve_update_fault e (row_id job)")
      case (StoreThrows x)
      with v False Cons.prems show ?thesis by simp
    next
      case (StoreError m)
      with v False Cons show ?thesis by simp
    next
      case StoreOk
      have "list_all2 (\<lambda>r r'. r' = r \<or> r' = r\<lparr>is_active := Some False, updated_at := ve_db_now e\<rparr>) T0
          (update_by_id (ve_db_now e) (row_id job) deactivate T)"
        using Cons.prems by (rule deactivate_related)
      with v False StoreOk Cons.IH show ?thesis by simp
    qed
  qed
qed

lemma sweep_batches_related:
  assumes "list_all2 (\<lambda>r r'. r' = r \<or> r' = r\<lparr>is_active := Some False, updated_at := ve_db_now e\<rparr>) T0 T"
  shows "list_all2 (\<lambda>r r'. r' = r \<or> r' = r\<lparr>is_active := Some False, updated_at := ve_db_now e\<rparr>) T0
           (snd (snd (sweep_batches e jobs (res, T))))"
  using assms
proof (induction "length jobs" arbitrary: jobs res T rule: less_induct)
  case less
  show ?case
  proof (cases "jobs = []")
    case True
    with less.prems show ?thesis by (simp add: sweep_batches.simps)
  next
    case False
    obtain x res1 T1 where v: "sweep_validations e
        (map (\<lambda>job. (job, check_url e (application_url job))) (take 5 jobs)) (res, T) = (x, res1, T1)"
      by (metis prod_cases3)
    from sweep_validations_related [OF less.prems, of
        "map (\<lambda>job. (job, check_url e (application_url job))) (take 5 jobs)" res] v
    have r1: "list_all2 (\<lambda>r r'. r' = r \<or> r' = r\<lparr>is_active := Some False, updated_at := ve_db_now e\<rparr>) T0 T1"
      by simp
    show ?thesis
    proof (cases x)
      case None
      have shorter: "length (drop 5 jobs) < length jobs" using False by simp
      from less.hyps [OF shorter r1, of res1]
      show ?thesis using False v None by (subst sweep_batches.simps) simp
    next
      case (Some y)
      with False v r1 show ?thesis by (subst sweep_batches.simps) simp
    qed
  qed
qed

lemma related_refl:
  "list_all2 (\<lambda>r r'. r' = r \<or> r' = r\<lparr>is_active := Some False, updated_at := dbnow\<rparr>) T T"
  by (simp add: list_all2_same)

lemma GET_validate_related:
  "list_all2 (\<lambda>r r'. r' = r \<or> r' = r\<lparr>is_active := Some False, updated_at := ve_db_now e\<rparr>)
     (pilot_jobs s) (pilot_jobs (snd (GET_validate e s)))"
proof -
  let ?jobs = "filter (\<lambda>r. is_active r = Some True) (pilot_jobs s)"
  let ?res = "\<lparr> total = length ?jobs, valid_count = 0, invalid_count = 0,
                 deactivated = [], errors = [] \<rparr>"
  obtain x res T where b: "sweep_batches e ?jobs (?res, pilot_jobs s) = (x, res, T)"
    by (metis prod_cases3)
  from sweep_batches_related [OF related_refl, of e "pilot_jobs s" ?jobs ?res] b
  have "list_all2 (\<lambda>r r'. r' = r \<or> r' = r\<lparr>is_active := Some False, updated_at := ve_db_now e\<rparr>)
     (pilot_jobs s) T"
    by simp
  with b related_refl [of "ve_db_now e" "pilot_jobs s"] show ?thesis
    by (cases x) (simp_all add: GET_validate_def Let_def split: client_outcome.splits store_reply.splits)
qed

lemma upsert_rows_prefix:
  assumes "\<forall>e \<in> set batch. keyed_entry e"
  shows "take (length T) (map row_id (upsert_rows dbnow batch T)) = map row_id T"
  using assms
proof (induction batch arbitrary: T)
  case Nil
  then show ?case by (simp add: upsert_rows_def)
next
  case (Cons a batch)
  have unfold: "upsert_rows dbnow (a # batch) T = upsert_rows dbnow batch (upsert_one dbnow a T)"
    by (simp add: upsert_rows_def)
  from Cons.prems have k: "keyed_entry a" by simp
  have len: "length T \<le> length (upsert_one dbnow a T)" by (simp add: upsert_one_length)
  have one: "take (length T) (map row_id (upsert_one dbnow a T)) = map row_id T"
    using k by (simp add: upsert_one_ids)
  from Cons.IH [of "upsert_one dbnow a T"] Cons.prems
  have "take (length (upsert_one dbnow a T)) (map row_id (upsert_rows dbnow batch (upsert_one dbnow a T))) =
      map row_id (upsert_one dbnow a T)"
    by simp
  then have "take (length T) (take (length (upsert_one dbnow a T))
        (map row_id (upsert_rows dbnow batch (upsert_one dbnow a T)))) =
      take (length T) (map row_id (upsert_one dbnow a T))"
    by simp
  with len one unfold show ?case by (simp add: min_def)
qed

lemma cron_entry_keyed: "keyed_entry (cron_entry c)"
  by (simp add: keyed_entry_def cron_entry_def cron_columns_def)

lemma cron_entry_stable: "stable_entry (cron_entry c)"
  by (simp add: stable_entry_def cron_entry_def cron_columns_def)

lemma GET_scrape_table:
  "pilot_jobs (snd (GET_scrape e s)) = pilot_jobs s
   \<or> pilot_jobs (snd (GET_scrape e s)) =
       upsert_rows (ce_db_now e) (map cron_entry (cron_jobsToUpsert e)) (pilot_jobs s)"
  by (auto simp: GET_scrape_def cron_try_def Let_def store_upsert_def cron_jobsToUpsert_def
      split: client_outcome.splits store_reply.splits)

lemma POST_table:
  "pilot_jobs (snd (POST e s)) = pilot_jobs s
   \<or> (\<exists>jobs. pilot_jobs (snd (POST e s)) =
       upsert_rows (pe_db_now e) (map post_entry (post_jobsToUpsert (pe_clock e) jobs)) (pilot_jobs s))"
  by (auto simp: POST_def post_save_supabase_def post_save_file_def store_upsert_def
      split: post_body.splits store_reply.splits)

text \<open>The static jobs have pairwise different URLs, so no cron batch names a key twice.\<close>

lemma static_urls_distinct: "distinct (map sj_application_url STATIC_JOBS)"
  by (simp add: STATIC_JOBS_def direct_job_def)

lemma cron_batch_keys:
  "map fst (map cron_entry (cron_jobsToUpsert e)) =
     map sj_application_url
       (filter (\<lambda>job. validateUrl e (sj_application_url job)) STATIC_JOBS)"
proof -
  have "map fst (map cron_entry (cron_jobsToUpsert e)) =
      map c_application_url (map (\<lambda>c. c\<lparr>c_date_scraped := 0\<rparr>) (cron_jobsToUpsert e))"
    by (simp add: cron_entry_def comp_def)
  also have "\<dots> = map c_application_url (map (\<lambda>job. cron_row_of (job_data_of job 0))
      (filter (\<lambda>job. validateUrl e (sj_application_url job)) STATIC_JOBS))"
    by (simp only: cron_jobsToUpsert_untimed)
  also have "\<dots> = map sj_application_url
      (filter (\<lambda>job. validateUrl e (sj_application_url job)) STATIC_JOBS)"
    by (simp add: cron_row_of_def job_data_of_def Let_def comp_def)
  finally show ?thesis .
qed

lemma cron_batch_distinct: "distinct (map fst (map cron_entry (cron_jobsToUpsert e)))"
  unfolding cron_batch_keys using static_urls_distinct by (rule distinct_map_filter)

text \<open>A cron run that reaches the store and is accepted by it.\<close>

definition cron_saved :: "cron_env \<Rightarrow> bool" where
  "cron_saved e =
     (cron_authorized e \<and> ce_adminClient e = HaveClient \<and> ce_upsert_fault e = StoreOk)"

lemma GET_scrape_saved:
  assumes "cron_saved e"
  shows "pilot_jobs (snd (GET_scrape e s)) =
     upsert_rows (ce_db_now e) (map cron_entry (cron_jobsToUpsert e)) (pilot_jobs s)"
  using assms cron_batch_distinct [of e]
  by (simp add: GET_scrape_def cron_try_def Let_def store_upsert_def cron_saved_def
      cron_jobsToUpsert_def)

lemma upsert_rows_reactivates:
  assumes keyed: "\<forall>x \<in> set batch. keyed_entry x" and d: "distinct (map fst batch)"
    and mem: "a \<in> set batch" and stable: "stable_entry a"
    and act: "\<And>r. is_active (snd a r) = Some True"
  shows "Some (fst a) \<in> set (map application_url (upsert_rows dbnow batch T))
     \<and> list_all (\<lambda>r. is_active r = Some True)
         (filter (\<lambda>r. application_url r = Some (fst a)) (upsert_rows dbnow batch T))"
proof -
  have "set (map application_url (upsert_rows dbnow batch T)) =
      set (map application_url T) \<union> Some ` fst ` set batch"
    using keyed by (rule upsert_rows_urls)
  moreover have "Some (fst a) \<in> Some ` fst ` set batch" using mem by (metis imageI)
  ultimately have present: "Some (fst a) \<in> set (map application_url (upsert_rows dbnow batch T))"
    by simp
  have "is_active r = Some True"
    if "r \<in> set (upsert_rows dbnow batch T)" and "application_url r = Some (fst a)" for r
  proof -
    from keyed d mem stable that have "snd a r = r" by (rule upsert_rows_settles)
    with act [of r] show ?thesis by simp
  qed
  then have "list_all (\<lambda>r. is_active r = Some True)
         (filter (\<lambda>r. application_url r = Some (fst a)) (upsert_rows dbnow batch T))"
    by (simp add: list_all_iff)
  with present show ?thesis by simp
qed

text \<open>
  C6: no operation of the pipeline removes a row of \<open>pilot_jobs\<close>. The validation
  sweep leaves every row in place and changes at most \<open>is_active\<close>, to false (with the
  trigger's \<open>updated_at\<close>), whatever happens during the sweep. The cron upsert and the
  ingestion upsert keep every existing row, with its id, at its position. And the
  deactivation is reversible: after an accepted cron run or ingestion call, a row with
  the URL of each upserted record exists and every row with that URL is active.
\<close>

theorem pipeline_never_deletes:
  "list_all2 (\<lambda>r r'. r' = r \<or> r' = r\<lparr>is_active := Some False, updated_at := ve_db_now ev\<rparr>)
     (pilot_jobs s) (pilot_jobs (snd (GET_validate ev s)))
   \<and> take (length (pilot_jobs s)) (map row_id (pilot_jobs (snd (GET_scrape ec s)))) =
       map row_id (pilot_jobs s)
   \<and> take (length (pilot_jobs s)) (map row_id (pilot_jobs (snd (POST ep s)))) =
       map row_id (pilot_jobs s)
   \<and> (cron_saved ec \<and> c \<in> set (cron_jobsToUpsert ec) \<longrightarrow>
        Some (c_application_url c) \<in> set (map application_url (pilot_jobs (snd (GET_scrape ec s))))
        \<and> list_all (\<lambda>r. is_active r = Some True)
            (filter (\<lambda>r. application_url r = Some (c_application_url c))
               (pilot_jobs (snd (GET_scrape ec s)))))
   \<and> (post_accepted ep jobs \<and> job \<in> set jobs \<longrightarrow>
        Some (post_key job) \<in> set (map application_url (pilot_jobs (snd (POST ep s))))
        \<and> list_all (\<lambda>r. is_active r = Some True)
            (filter (\<lambda>r. application_url r = Some (post_key job))
               (pilot_jobs (snd (POST ep s)))))"
proof (intro conjI impI)
  show "list_all2 (\<lambda>r r'. r' = r \<or> r' = r\<lparr>is_active := Some False, updated_at := ve_db_now ev\<rparr>)
     (pilot_jobs s) (pilot_jobs (snd (GET_validate ev s)))"
    by (rule GET_validate_related)
next
  have k: "\<forall>x \<in> set (map cron_entry (cron_jobsToUpsert ec)). keyed_entry x"
    by (simp add: cron_entry_keyed)
  from GET_scrape_table [of ec s] upsert_rows_prefix [OF k, of "pilot_jobs s" "ce_db_now ec"]
  show "take (length (pilot_jobs s)) (map row_id (pilot_jobs (snd (GET_scrape ec s)))) =
       map row_id (pilot_jobs s)"
    by auto
next
  from POST_table [of ep s]
  show "take (length (pilot_jobs s)) (map row_id (pilot_jobs (snd (POST ep s)))) =
       map row_id (pilot_jobs s)"
  proof
    assume "pilot_jobs (snd (POST ep s)) = pilot_jobs s"
    then show ?thesis by simp
  next
    assume "\<exists>jobs. pilot_jobs (snd (POST ep s)) =
       upsert_rows (pe_db_now ep) (map post_entry (post_jobsToUpsert (pe_clock ep) jobs)) (pilot_jobs s)"
    then obtain js where "pilot_jobs (snd (POST ep s)) =
       upsert_rows (pe_db_now ep) (map post_entry (post_jobsToUpsert (pe_clock ep) js)) (pilot_jobs s)"
      by blast
    with upsert_rows_prefix [OF post_batch_keyed, of "pilot_jobs s" "pe_db_now ep" "pe_clock ep" js]
    show ?thesis by simp
  qed
next
  assume a: "cron_saved ec \<and> c \<in> set (cron_jobsToUpsert ec)"
  have k: "\<forall>x \<in> set (map cron_entry (cron_jobsToUpsert ec)). keyed_entry x"
    by (simp add: cron_entry_keyed)
  from a have mem: "cron_entry c \<in> set (map cron_entry (cron_jobsToUpsert ec))" by simp
  have act: "\<And>r. is_active (snd (cron_entry c) r) = Some True"
    using a by (auto simp: cron_entry_def cron_columns_def cron_jobsToUpsert_def cron_row_of_def Let_def)
  from upsert_rows_reactivates [OF k cron_batch_distinct mem cron_entry_stable act,
      of "ce_db_now ec" "pilot_jobs s"] a
  have both: "Some (c_application_url c) \<in> set (map application_url (pilot_jobs (snd (GET_scrape ec s))))
        \<and> list_all (\<lambda>r. is_active r = Some True)
            (filter (\<lambda>r. application_url r = Some (c_application_url c))
               (pilot_jobs (snd (GET_scrape ec s))))"
    by (simp add: GET_scrape_saved cron_entry_def)
  from both show "Some (c_application_url c) \<in> set (map application_url (pilot_jobs (snd (GET_scrape ec s))))"
    by (rule conjunct1)
  from both show "list_all (\<lambda>r. is_active r = Some True)
            (filter (\<lambda>r. application_url r = Some (c_application_url c))
               (pilot_jobs (snd (GET_scrape ec s))))"
    by (rule conjunct2)
next
  assume a: "post_accepted ep jobs \<and> job \<in> set jobs"
  then obtain i where i: "i < length jobs" and ji: "jobs ! i = job"
    by (metis in_set_conv_nth)
  define p where "p = post_row_of (pe_clock ep i) job"
  have nth: "map post_entry (post_jobsToUpsert (pe_clock ep) jobs) ! i = post_entry p"
    using i ji by (simp add: post_jobsToUpsert_def post_rows_from_length post_rows_from_nth p_def)
  have len: "i < length (map post_entry (post_jobsToUpsert (pe_clock ep) jobs))"
    using i by (simp add: post_jobsToUpsert_def post_rows_from_length)
  from nth len have mem: "post_entry p \<in> set (map post_entry (post_jobsToUpsert (pe_clock ep) jobs))"
    by (metis nth_mem)
  have d: "distinct (map fst (map post_entry (post_jobsToUpsert (pe_clock ep) jobs)))"
    using a by (simp only: post_batch_keys post_accepted_def)
  have act: "\<And>r. is_active (snd (post_entry p) r) = Some True"
    by (simp add: post_entry_def post_columns_def p_def post_row_of_def)
  have key: "fst (post_entry p) = post_key job"
    by (simp add: post_entry_def p_def post_row_of_def post_key_def)
  from a have tab: "pilot_jobs (snd (POST ep s)) =
      upsert_rows (pe_db_now ep) (map post_entry (post_jobsToUpsert (pe_clock ep) jobs)) (pilot_jobs s)"
    using POST_accepted [of ep jobs s] by simp
  from upsert_rows_reactivates [OF post_batch_keyed d mem post_entry_stable act,
      of "pe_db_now ep" "pilot_jobs s"]
  have both: "Some (post_key job) \<in> set (map application_url (pilot_jobs (snd (POST ep s))))
        \<and> list_all (\<lambda>r. is_active r = Some True)
            (filter (\<lambda>r. application_url r = Some (post_key job))
               (pilot_jobs (snd (POST ep s))))"
    by (simp add: tab key)
  from both show "Some (post_key job) \<in> set (map application_url (pilot_jobs (snd (POST ep s))))"
    by (rule conjunct1)
  from both show "list_all (\<lambda>r. is_active r = Some True)
            (filter (\<lambda>r. application_url r = Some (post_key job))
               (pilot_jobs (snd (POST ep s))))"
    by (rule conjunct2)
qed


text \<open>
  A table whose one posting has the Emirates URL: the sweep finds the link dead and
  deactivates it, and the next cron run, which finds every URL alive, brings the same
  row back.
\<close>

definition emirates_posting :: pilot_job where
  "emirates_posting =
     SAMPLE_JOB\<lparr>application_url := Some ''https://www.emiratesgroupcareers.com/pilots/''\<rparr>"

definition emirates_system :: system where
  "emirates_system =
     \<lparr> pilot_jobs = [emirates_posting], scrape_logs = [], latest_jobs_file = None \<rparr>"

lemma emirates_swept:
  "pilot_jobs (snd (GET_validate dead_link_env emirates_system)) =
     [emirates_posting\<lparr>is_active := Some False, updated_at := 7000\<rparr>]"
proof -
  have a: "is_active emirates_posting = Some True"
    by (simp add: emirates_posting_def SAMPLE_JOB_def)
  have c: "check_url dead_link_env (application_url emirates_posting) =
       \<lparr> valid = False, chk_status = Some 404, chk_error = Some ''Page not found (404)'' \<rparr>"
    by (simp add: check_url_def dead_link_env_def emirates_posting_def)
  have f: "ve_update_fault dead_link_env (row_id emirates_posting) = StoreOk"
    "ve_db_now dead_link_env = 7000"
    by (simp_all add: dead_link_env_def)
  have "sweep_batches dead_link_env [emirates_posting]
          (\<lparr> total = 1, valid_count = 0, invalid_count = 0, deactivated = [], errors = [] \<rparr>,
           [emirates_posting]) =
        (None,
         \<lparr> total = 1, valid_count = 0, invalid_count = 1,
           deactivated = [(row_id emirates_posting, title emirates_posting,
                           application_url emirates_posting, ''Page not found (404)'')],
           errors = [] \<rparr>,
         [emirates_posting\<lparr>is_active := Some False, updated_at := 7000\<rparr>])"
    by (simp add: sweep_batches.simps c f update_by_id_def deactivate_def)
  then show ?thesis
    using a by (simp add: GET_validate_def admin_authorized_def dead_link_env_def
        emirates_system_def Let_def)
qed

theorem pipeline_never_deletes_witness:
  "cron_saved all_live_env
   \<and> cron_row_of (job_data_of (STATIC_JOBS ! 0) 5000) \<in> set (cron_jobsToUpsert all_live_env)
   \<and> map is_active (pilot_jobs (snd (GET_validate dead_link_env emirates_system))) = [Some False]
   \<and> take 1 (map row_id (pilot_jobs (snd (GET_scrape all_live_env
         (snd (GET_validate dead_link_env emirates_system)))))) = [1]
   \<and> Some ''https://www.emiratesgroupcareers.com/pilots/'' \<in>
        set (map application_url (pilot_jobs (snd (GET_scrape all_live_env
          (snd (GET_validate dead_link_env emirates_system))))))
   \<and> list_all (\<lambda>r. is_active r = Some True)
        (filter (\<lambda>r. application_url r = Some ''https://www.emiratesgroupcareers.com/pilots/'')
           (pilot_jobs (snd (GET_scrape all_live_env
              (snd (GET_validate dead_link_env emirates_system))))))"
proof -
  let ?s1 = "snd (GET_validate dead_link_env emirates_system)"
  let ?c = "cron_row_of (job_data_of (STATIC_JOBS ! 0) 5000)"
  have h1: "cron_saved all_live_env"
    by (simp add: cron_saved_def cron_authorized_def all_live_env_def one_dead_env_def)
  have h2: "?c \<in> set (cron_jobsToUpsert all_live_env)"
    by (simp add: cron_jobsToUpsert_def all_live_jobs STATIC_JOBS_def)
  have u: "c_application_url ?c = ''https://www.emiratesgroupcareers.com/pilots/''"
    by (simp add: cron_row_of_def job_data_of_def STATIC_JOBS_def direct_job_def Let_def)
  have swept: "map is_active (pilot_jobs ?s1) = [Some False]"
    "map row_id (pilot_jobs ?s1) = [1]" "length (pilot_jobs ?s1) = 1"
    by (simp_all add: emirates_swept emirates_posting_def SAMPLE_JOB_def)
  note t = pipeline_never_deletes [of dead_link_env ?s1 all_live_env ep ?c jobs job]
  from t swept have ids: "take 1 (map row_id (pilot_jobs (snd (GET_scrape all_live_env ?s1)))) = [1]"
    by simp
  from t h1 h2 u have reactivated:
    "Some ''https://www.emiratesgroupcareers.com/pilots/'' \<in>
        set (map application_url (pilot_jobs (snd (GET_scrape all_live_env ?s1))))"
    "list_all (\<lambda>r. is_active r = Some True)
        (filter (\<lambda>r. application_url r = Some ''https://www.emiratesgroupcareers.com/pilots/'')
           (pilot_jobs (snd (GET_scrape all_live_env ?s1))))"
    by simp_all
  from h1 h2 swept(1) ids reactivated show ?thesis by (intro conjI)
qed

end
